theory Spec2Isabelle
  imports Complex_Main "HOL-Library.AList"
begin

section \<open>Cnchi: the pyalpm interface \<^verbatim>\<open>src/pacman/pac.py\<close>\<close>

text \<open>
  A shallow embedding of class \<^verbatim>\<open>Pac\<close>. The object's attributes are the fields of a
  record that every method takes and returns. What the methods do to the world outside the
  object is kept in two more fields of that record: the lines written through the
  \<^verbatim>\<open>logging\<close> module, and the calls made on the native engine (pyalpm), in order.
  Python exceptions are values of \<open>exc\<close>; a call either returns, raises, or never returns
  (\<^verbatim>\<open>Queue.join\<close> on a queue that is not drained, a native call that hangs). The
  translation function \<^verbatim>\<open>_\<close> is taken as the identity, so messages are the untranslated
  ones. The callbacks \<^verbatim>\<open>cb_log\<close>, \<^verbatim>\<open>cb_event\<close>, \<^verbatim>\<open>cb_progress\<close> and
  \<^verbatim>\<open>cb_question\<close> and the construction of the handle are not part of the embedding.

  Numbers: Python's unbounded \<^verbatim>\<open>int\<close> is \<open>int\<close>. The progress fractions are Python
  floats; they are embedded as \<open>real\<close>, so rounding of the floating-point operations is
  not part of this model.
\<close>

subsection \<open>Exceptions and results\<close>

datatype exc =
    AlpmError string      \<comment> \<open>\<^verbatim>\<open>pyalpm.error\<close>, with its \<^verbatim>\<open>str()\<close>\<close>
  | AttributeError
  | TypeError
  | UnboundLocalError
  | ValueError
  | SystemExit int
  | OtherError string     \<comment> \<open>any other exception class\<close>

datatype 'a result = Returns 'a | Raises exc | Blocks

fun is_alpm_error :: "exc \<Rightarrow> bool" where
  "is_alpm_error (AlpmError m) = True"
| "is_alpm_error e = False"

subsection \<open>Python values held in the options dictionary\<close>

datatype pyval = PyNone | PyBool bool | PyInt int | PyStr string

text \<open>\<^verbatim>\<open>v > c\<close> for an integer constant \<open>c\<close>: \<^verbatim>\<open>bool\<close> is a subclass of \<^verbatim>\<open>int\<close>;
  \<^verbatim>\<open>None\<close> and \<^verbatim>\<open>str\<close> do not order against \<^verbatim>\<open>int\<close> (TypeError).\<close>

fun py_gt_int :: "pyval \<Rightarrow> int \<Rightarrow> bool option" where
  "py_gt_int (PyInt n) c = Some (n > c)"
| "py_gt_int (PyBool b) c = Some ((if b then 1 else 0) > c)"
| "py_gt_int PyNone c = None"
| "py_gt_int (PyStr s) c = None"

text \<open>\<^verbatim>\<open>v == c\<close> for an integer constant \<open>c\<close>.\<close>

fun py_eq_int :: "pyval \<Rightarrow> int \<Rightarrow> bool" where
  "py_eq_int (PyInt n) c = (n = c)"
| "py_eq_int (PyBool b) c = ((if b then 1 else 0) = c)"
| "py_eq_int PyNone c = False"
| "py_eq_int (PyStr s) c = False"

text \<open>\<^verbatim>\<open>options.get(key, default)\<close>.\<close>

definition dict_get :: "(string \<rightharpoonup> pyval) \<Rightarrow> string \<Rightarrow> pyval \<Rightarrow> pyval" where
  "dict_get d k dflt = (case d k of None \<Rightarrow> dflt | Some v \<Rightarrow> v)"

text \<open>The two package-reason constants of pyalpm (libalpm's \<^verbatim>\<open>alpm_pkgreason_t\<close>).\<close>

definition PKG_REASON_EXPLICIT :: int where
  "PKG_REASON_EXPLICIT = 0"

definition PKG_REASON_DEPEND :: int where
  "PKG_REASON_DEPEND = 1"

subsection \<open>The native engine\<close>

record pkg =
  pkg_name :: string
  pkg_db :: string

text \<open>The keyword arguments of \<^verbatim>\<open>Handle.init_transaction\<close>. Eight of them are passed on as
  they come out of the dictionary; four are computed by \<^verbatim>\<open>Pac.init_transaction\<close>.\<close>

record trans_flags =
  cascade :: pyval
  nodeps :: pyval
  force :: pyval
  dbonly :: pyval
  downloadonly :: pyval
  needed :: pyval
  nosave :: pyval
  recurse :: bool
  recurseall :: bool
  unneeded :: pyval
  alldeps :: bool
  allexplicit :: bool

text \<open>A transaction object: the flags it was created with, and how the engine answers each
  of its methods (\<open>None\<close>: the call returns; \<open>Some e\<close>: it raises \<open>e\<close>). pyalpm reports
  every failure of the native library, also of \<^verbatim>\<open>alpm_trans_release\<close>, by raising
  \<^verbatim>\<open>pyalpm.error\<close>; a callback that runs inside \<^verbatim>\<open>prepare\<close> or \<^verbatim>\<open>commit\<close> can raise
  anything.\<close>

record transaction =
  t_flags :: trans_flags
  t_add_pkg :: "pkg \<Rightarrow> exc option"
  t_prepare :: "exc option"
  t_commit :: "exc option"
  t_release :: "exc option"

text \<open>A sync database: its packages (\<^verbatim>\<open>get_pkg\<close> finds one by name), its groups
  (\<^verbatim>\<open>read_grp\<close> returns the pair of the name and the members), and the answer of
  \<^verbatim>\<open>update\<close>.\<close>

record syncdb =
  db_name :: string
  db_pkgs :: "pkg list"
  db_grps :: "(string \<times> pkg list) list"
  db_update :: "bool result"

definition get_pkg :: "syncdb \<Rightarrow> string \<Rightarrow> pkg option" where
  "get_pkg db name = find (\<lambda>p. pkg_name p = name) (db_pkgs db)"

definition read_grp :: "syncdb \<Rightarrow> string \<Rightarrow> (string \<times> pkg list) option" where
  "read_grp db name = find (\<lambda>g. fst g = name) (db_grps db)"

text \<open>The handle: the sync databases in their configured order, and the answer of the
  engine to \<^verbatim>\<open>init_transaction\<close> (the new transaction carries the flags of the call, which
  \<^verbatim>\<open>Pac.init_transaction\<close> below writes into \<open>t_flags\<close>).\<close>

record alpm_handle =
  syncdbs :: "syncdb list"
  h_init_transaction :: "trans_flags \<Rightarrow> transaction result"

datatype call =
    CInit trans_flags
  | CAddPkg pkg
  | CPrepare
  | CCommit
  | CRelease
  | CUpdate string bool

datatype level = DEBUG | ERROR | WARNING

subsection \<open>The event queue\<close>

record code_obj =
  co_name :: string
  co_filename :: string
  co_firstlineno :: nat

text \<open>The second component of an event. \<open>Located t f\<close> stands for the string
  \<^verbatim>\<open>"%s: %s in %s:%i" % (t, f.co_name, f.co_filename, f.co_firstlineno)\<close>.\<close>

datatype payload = Text string | Number real | Located payload code_obj

type_synonym event = "string \<times> payload"

text \<open>A joinable queue: its bound (0: unbounded), the items put and not yet taken, what the
  consumer has taken so far, and whether the consumer goes on taking items and marking them
  done (\<^verbatim>\<open>join\<close> returns only then).\<close>

record cqueue =
  maxsize :: nat
  items :: "event list"
  consumed :: "event list"
  consumer_drains :: bool

definition full :: "cqueue \<Rightarrow> bool" where
  "full q = (0 < maxsize q \<and> maxsize q \<le> length (items q))"

text \<open>\<^verbatim>\<open>try: q.put_nowait(e) except queue.Full: pass\<close>\<close>

definition put_nowait_or_drop :: "cqueue \<Rightarrow> event \<Rightarrow> cqueue" where
  "put_nowait_or_drop q e = (if full q then q else q\<lparr>items := items q @ [e]\<rparr>)"

text \<open>\<^verbatim>\<open>q.join()\<close>: with a consumer that drains, every item has been taken, in order, when
  the call returns; otherwise it never returns.\<close>

definition join :: "cqueue \<Rightarrow> cqueue option" where
  "join q = (if consumer_drains q
             then Some (q\<lparr>consumed := consumed q @ items q, items := []\<rparr>)
             else None)"

subsection \<open>The state of a \<^verbatim>\<open>Pac\<close> object\<close>

record pac =
  callback_queue :: "cqueue option"
  handle :: "alpm_handle option"
  last_dl_filename :: "string option"
  last_dl_progress :: real
  last_dl_total_size :: int
  total_packages_to_download :: int
  downloaded_packages :: int
  total_download_size :: int
  last_event :: "string \<rightharpoonup> payload"
  logged :: "(level \<times> string) list"
  engine_calls :: "call list"

definition logging :: "level \<Rightarrow> string \<Rightarrow> pac \<Rightarrow> pac" where
  "logging lv msg s = s\<lparr>logged := logged s @ [(lv, msg)]\<rparr>"

definition engine_call :: "call \<Rightarrow> pac \<Rightarrow> pac" where
  "engine_call c s = s\<lparr>engine_calls := engine_calls s @ [c]\<rparr>"

subsection \<open>\<^verbatim>\<open>finalize_transaction\<close>\<close>

text \<open>The body of the \<^verbatim>\<open>try\<close>: \<^verbatim>\<open>transaction.prepare()\<close>, then
  \<^verbatim>\<open>transaction.commit()\<close>. The result is the exception in flight, if any.\<close>

definition prepare_commit :: "transaction \<Rightarrow> pac \<Rightarrow> exc option \<times> pac" where
  "prepare_commit t s =
     (let s1 = engine_call CPrepare s in
      case t_prepare t of
        Some e \<Rightarrow> (Some e, s1)
      | None \<Rightarrow> (t_commit t, engine_call CCommit s1))"

text \<open>\<^verbatim>\<open>except pyalpm.error as err\<close>: the handler logs and clears \<^verbatim>\<open>all_ok\<close>; any other
  exception stays in flight. The result is \<^verbatim>\<open>all_ok\<close> and the exception still in flight.\<close>

definition finalize_handler :: "exc option \<Rightarrow> pac \<Rightarrow> (bool \<times> exc option) \<times> pac" where
  "finalize_handler inflight s =
     (case inflight of
        None \<Rightarrow> ((True, None), s)
      | Some (AlpmError m) \<Rightarrow>
          ((False, None), logging ERROR (''Can't finalize alpm transaction: '' @ m) s)
      | Some e \<Rightarrow> ((True, Some e), s))"

text \<open>\<^verbatim>\<open>finally: transaction.release(); return all_ok\<close>. An exception of
  \<^verbatim>\<open>release\<close> replaces whatever is in flight and leaves the function; otherwise the
  \<^verbatim>\<open>return\<close> discards whatever is in flight.\<close>

definition finalize_transaction :: "transaction \<Rightarrow> pac \<Rightarrow> bool result \<times> pac" where
  "finalize_transaction t s =
     (let (inflight, s1) = prepare_commit t s;
          ((all_ok, inflight'), s2) = finalize_handler inflight s1;
          s3 = engine_call CRelease s2
      in case t_release t of
           Some e \<Rightarrow> (Raises e, s3)
         | None \<Rightarrow> (Returns all_ok, s3))"

subsection \<open>\<^verbatim>\<open>init_transaction\<close>\<close>

text \<open>The keyword arguments, evaluated in the order written. The two comparisons of
  \<^verbatim>\<open>options.get('recursive', 0)\<close> raise TypeError on a value that does not order against
  an \<^verbatim>\<open>int\<close>.\<close>

definition init_flags :: "(string \<rightharpoonup> pyval) \<Rightarrow> trans_flags option" where
  "init_flags options =
     (case py_gt_int (dict_get options ''recursive'' (PyInt 0)) 0 of
        None \<Rightarrow> None
      | Some r \<Rightarrow>
     (case py_gt_int (dict_get options ''recursive'' (PyInt 0)) 1 of
        None \<Rightarrow> None
      | Some ra \<Rightarrow>
          Some \<lparr> cascade = dict_get options ''cascade'' (PyBool False),
                 nodeps = dict_get options ''nodeps'' (PyBool False),
                 force = dict_get options ''force'' (PyBool False),
                 dbonly = dict_get options ''dbonly'' (PyBool False),
                 downloadonly = dict_get options ''downloadonly'' (PyBool False),
                 needed = dict_get options ''needed'' (PyBool False),
                 nosave = dict_get options ''nosave'' (PyBool False),
                 recurse = r,
                 recurseall = ra,
                 unneeded = dict_get options ''unneeded'' (PyBool False),
                 alldeps = py_eq_int (dict_get options ''mode'' PyNone) PKG_REASON_DEPEND,
                 allexplicit = py_eq_int (dict_get options ''mode'' PyNone) PKG_REASON_EXPLICIT \<rparr>))"

text \<open>The result is \<open>None\<close> for Python's \<^verbatim>\<open>None\<close>. An exception other than
  \<^verbatim>\<open>pyalpm.error\<close> in the \<^verbatim>\<open>try\<close> (also the AttributeError of a missing handle)
  reaches \<^verbatim>\<open>finally: return transaction\<close> with \<^verbatim>\<open>transaction\<close> never assigned, which
  raises UnboundLocalError.\<close>

definition init_transaction ::
  "(string \<rightharpoonup> pyval) \<Rightarrow> pac \<Rightarrow> transaction option result \<times> pac" where
  "init_transaction options s =
     (case handle s of
        None \<Rightarrow> (Raises UnboundLocalError, s)
      | Some h \<Rightarrow>
     (case init_flags options of
        None \<Rightarrow> (Raises UnboundLocalError, s)
      | Some fl \<Rightarrow>
          (let s1 = engine_call (CInit fl) s in
           case h_init_transaction h fl of
             Returns t \<Rightarrow> (Returns (Some (t\<lparr>t_flags := fl\<rparr>)), s1)
           | Raises (AlpmError m) \<Rightarrow>
               (Returns None, logging ERROR (''Can't init alpm transaction: '' @ m) s1)
           | Raises e \<Rightarrow> (Raises UnboundLocalError, s1)
           | Blocks \<Rightarrow> (Blocks, s1))))"

subsection \<open>\<^verbatim>\<open>do_refresh\<close>\<close>

text \<open>The \<^verbatim>\<open>for\<close> loop over \<^verbatim>\<open>self.handle.get_syncdbs()\<close>. Nothing in the loop catches
  an exception: one raised by \<^verbatim>\<open>init_transaction\<close>, by \<^verbatim>\<open>db.update(force)\<close> or by
  \<^verbatim>\<open>transaction.release()\<close> leaves the loop and the method. \<^verbatim>\<open>init_transaction\<close> may
  have returned \<^verbatim>\<open>None\<close>, on which \<^verbatim>\<open>.release\<close> is an AttributeError. The value that
  \<^verbatim>\<open>update\<close> returns is not looked at.\<close>

fun refresh_loop :: "syncdb list \<Rightarrow> pac \<Rightarrow> bool result \<times> pac" where
  "refresh_loop [] s = (Returns True, s)"
| "refresh_loop (db # dbs) s =
     (case init_transaction Map.empty s of
        (Raises e, s1) \<Rightarrow> (Raises e, s1)
      | (Blocks, s1) \<Rightarrow> (Blocks, s1)
      | (Returns transaction, s1) \<Rightarrow>
          (let s2 = engine_call (CUpdate (db_name db) True) s1 in
           case db_update db of
             Raises e \<Rightarrow> (Raises e, s2)
           | Blocks \<Rightarrow> (Blocks, s2)
           | Returns b \<Rightarrow>
               (case transaction of
                  None \<Rightarrow> (Raises AttributeError, s2)
                | Some t \<Rightarrow>
                    (let s3 = engine_call CRelease s2 in
                     case t_release t of
                       Some e \<Rightarrow> (Raises e, s3)
                     | None \<Rightarrow> refresh_loop dbs s3))))"

definition do_refresh :: "pac \<Rightarrow> bool result \<times> pac" where
  "do_refresh s =
     (case handle s of
        None \<Rightarrow> (Raises (AlpmError []), logging ERROR ''alpm is not initialised'' s)
      | Some h \<Rightarrow> refresh_loop (syncdbs h) s)"

subsection \<open>Resolving names: \<^verbatim>\<open>find_sync_package\<close>, \<^verbatim>\<open>get_group_pkgs\<close>\<close>

definition quoted :: "string \<Rightarrow> string" where
  "quoted s = CHR 0x27 # s @ [CHR 0x27]"

text \<open>\<^verbatim>\<open>repos = dict((db.name, db) for db in ...)\<close>: a dictionary keeps the position of the
  first insertion of a key and the value of the last. It is an association list here, and
  \<^verbatim>\<open>syncdbs.values()\<close> walks it in that order.\<close>

definition repos_of :: "syncdb list \<Rightarrow> (string \<times> syncdb) list" where
  "repos_of dbs = foldl (\<lambda>d db. AList.update (db_name db) db d) [] dbs"

text \<open>The method returns the pair \<^verbatim>\<open>(True, pkg)\<close> or \<^verbatim>\<open>(False, message)\<close>: \<open>Inr pkg\<close> and
  \<open>Inl message\<close> here.\<close>

fun find_sync_package :: "string \<Rightarrow> (string \<times> syncdb) list \<Rightarrow> string + pkg" where
  "find_sync_package pkgname [] = Inl (''Package '' @ quoted pkgname @ '' was not found.'')"
| "find_sync_package pkgname (kv # rest) =
     (case get_pkg (snd kv) pkgname of
        Some p \<Rightarrow> Inr p
      | None \<Rightarrow> find_sync_package pkgname rest)"

fun get_group_pkgs :: "syncdb list \<Rightarrow> string \<Rightarrow> pkg list option" where
  "get_group_pkgs [] group_name = None"
| "get_group_pkgs (repo # repos) group_name =
     (case read_grp repo group_name of
        None \<Rightarrow> get_group_pkgs repos group_name
      | Some grp \<Rightarrow> Some (snd grp))"

subsection \<open>\<^verbatim>\<open>do_install\<close>\<close>

text \<open>\<^verbatim>\<open>list(set(xs))\<close>: the elements of \<open>xs\<close>, each once. Python leaves the order open;
  the embedding takes that of \<open>remdups\<close>, and no theorem below depends on it.\<close>

definition list_set :: "string list \<Rightarrow> string list" where
  "list_set xs = remdups xs"

text \<open>The first loop: one requested name.\<close>

definition resolve_name ::
  "alpm_handle \<Rightarrow> string list \<Rightarrow> string \<Rightarrow> string list \<times> pac \<Rightarrow> string list \<times> pac" where
  "resolve_name h conflicts name acc =
     (case acc of (targets, s) \<Rightarrow>
      (case find_sync_package name (repos_of (syncdbs h)) of
         Inr p \<Rightarrow>
           (if pkg_name p \<notin> set conflicts then (targets @ [pkg_name p], s) else (targets, s))
       | Inl msg \<Rightarrow>
           (case get_group_pkgs (syncdbs h) name of
              Some group_pkgs \<Rightarrow>
                (targets @ filter (\<lambda>n. n \<notin> set conflicts) (map pkg_name group_pkgs), s)
            | None \<Rightarrow>
                (targets,
                 logging ERROR (''Can't find a package or group called '' @ quoted name) s))))"

definition resolve_names ::
  "alpm_handle \<Rightarrow> string list \<Rightarrow> string list \<Rightarrow> pac \<Rightarrow> string list \<times> pac" where
  "resolve_names h conflicts pkgs s = foldl (\<lambda>acc name. resolve_name h conflicts name acc) ([], s) pkgs"

text \<open>The target list of \<^verbatim>\<open>do_install\<close> after both \<^verbatim>\<open>list(set(...))\<close>.\<close>

definition install_targets :: "alpm_handle \<Rightarrow> string list \<Rightarrow> string list \<Rightarrow> pac \<Rightarrow> string list" where
  "install_targets h conflicts pkgs s = list_set (fst (resolve_names h conflicts (list_set pkgs) s))"

text \<open>The second loop. A name that is no longer found leaves a string in \<^verbatim>\<open>pkg\<close>, and
  \<^verbatim>\<open>pkg.name\<close> is an AttributeError.\<close>

fun add_targets ::
  "transaction \<Rightarrow> (string \<times> syncdb) list \<Rightarrow> string list \<Rightarrow> pac \<Rightarrow> unit result \<times> pac" where
  "add_targets tr repos [] s = (Returns (), s)"
| "add_targets tr repos (name # names) s =
     (case find_sync_package name repos of
        Inl msg \<Rightarrow> (Raises AttributeError, s)
      | Inr p \<Rightarrow>
          (let s1 = logging DEBUG (''Adding package '' @ quoted (pkg_name p) @ '' to transaction'') s;
               s2 = engine_call (CAddPkg p) s1
           in case t_add_pkg tr p of
                Some e \<Rightarrow> (Raises e, s2)
              | None \<Rightarrow> add_targets tr repos names s2))"

datatype install_ret = RetList "string list" | RetBool bool

definition do_install ::
  "string list \<Rightarrow> string list \<Rightarrow> (string \<rightharpoonup> pyval) \<Rightarrow> pac \<Rightarrow> install_ret result \<times> pac" where
  "do_install pkgs conflicts options s =
     (case handle s of
        None \<Rightarrow> (Raises (AlpmError []), logging ERROR ''alpm is not initialised'' s)
      | Some h \<Rightarrow>
     (let s1 = logging DEBUG ''Cnchi will install a list of packages like pacman -S'' s in
      if length pkgs = 0 then (Returns (RetList []), s1)
      else
        (let s2 = snd (resolve_names h conflicts (list_set pkgs) s1);
             targets = install_targets h conflicts pkgs s1
         in if length targets = 0
            then (Returns (RetBool False), logging ERROR ''No targets found'' s2)
            else
              (case init_transaction options s2 of
                 (Raises e, s3) \<Rightarrow> (Raises e, s3)
               | (Blocks, s3) \<Rightarrow> (Blocks, s3)
               | (Returns None, s3) \<Rightarrow> (Returns (RetBool False), s3)
               | (Returns (Some tr), s3) \<Rightarrow>
                   (case add_targets tr (repos_of (syncdbs h)) targets s3 of
                      (Raises e, s4) \<Rightarrow> (Raises e, s4)
                    | (Blocks, s4) \<Rightarrow> (Blocks, s4)
                    | (Returns u, s4) \<Rightarrow>
                        (let s5 = s4\<lparr>total_packages_to_download := int (length targets)\<rparr>;
                             s6 = logging DEBUG ''Run and finalize transaction...'' s5
                         in case finalize_transaction tr s6 of
                              (Returns b, s7) \<Rightarrow> (Returns (RetBool b), s7)
                            | (Raises e, s7) \<Rightarrow> (Raises e, s7)
                            | (Blocks, s7) \<Rightarrow> (Blocks, s7)))))))"

subsection \<open>\<^verbatim>\<open>queue_event\<close>\<close>

text \<open>\<open>func\<close> is the code object of the calling frame
  (\<^verbatim>\<open>inspect.currentframe().f_back.f_code\<close>), read only for an \<^verbatim>\<open>"error"\<close> event.
  \<^verbatim>\<open>sys.exit(1)\<close> raises SystemExit.\<close>

definition queue_event :: "code_obj \<Rightarrow> string \<Rightarrow> payload \<Rightarrow> pac \<Rightarrow> unit result \<times> pac" where
  "queue_event func event_type event_text s =
     (if (case last_event s event_type of
            Some t \<Rightarrow> t = event_text
          | None \<Rightarrow> False)
      then (Returns (), s)
      else
        (let s1 = s\<lparr>last_event := (last_event s)(event_type \<mapsto> event_text)\<rparr>;
             event_text' = (if event_type = ''error'' then Located event_text func
                            else event_text)
         in case callback_queue s1 of
              None \<Rightarrow>
                (if event_type = ''error'' then (Raises (SystemExit 1), s1)
                 else (Returns (), s1))
            | Some q \<Rightarrow>
                (let q1 = put_nowait_or_drop q (event_type, event_text');
                     s2 = s1\<lparr>callback_queue := Some q1\<rparr>
                 in if event_type = ''error''
                    then (case join q1 of
                            None \<Rightarrow> (Blocks, s2)
                          | Some q2 \<Rightarrow> (Raises (SystemExit 1), s2\<lparr>callback_queue := Some q2\<rparr>))
                    else (Returns (), s2))))"

subsection \<open>The download callbacks\<close>

definition cb_totaldl :: "int \<Rightarrow> pac \<Rightarrow> pac" where
  "cb_totaldl total_size s = s\<lparr>total_download_size := total_size\<rparr>"

definition endswith :: "string \<Rightarrow> string \<Rightarrow> bool" where
  "endswith s ext = (length ext \<le> length s \<and> drop (length s - length ext) s = ext)"

text \<open>\<^verbatim>\<open>if filename.endswith(ext): filename = filename[:-len(ext)]\<close>\<close>

definition strip_ext :: "string \<Rightarrow> string \<Rightarrow> string" where
  "strip_ext ext filename =
     (if endswith filename ext then take (length filename - length ext) filename else filename)"

text \<open>The progress indicator of a call for the file already in progress. \<^verbatim>\<open>math.log\<close>
  raises ValueError on an argument that is not positive.\<close>

definition dl_progress :: "pac \<Rightarrow> int \<Rightarrow> real result" where
  "dl_progress s tx =
     (if last_dl_total_size s > 0
      then Returns (real_of_int tx / real_of_int (last_dl_total_size s))
      else if 1 + real_of_int tx / 1024 \<le> 0 then Raises ValueError
      else Returns (((ln (1 + real_of_int tx / 1024))\<^sup>2 / 2) / 100))"

text \<open>The code object of \<^verbatim>\<open>cb_dl\<close> itself, which is the caller of its
  \<^verbatim>\<open>queue_event\<close> calls.\<close>

definition cb_dl_code :: code_obj where
  "cb_dl_code = \<lparr>co_name = ''cb_dl'', co_filename = ''pac.py'', co_firstlineno = 344\<rparr>"

definition cb_dl :: "string \<Rightarrow> int \<Rightarrow> int \<Rightarrow> pac \<Rightarrow> unit result \<times> pac" where
  "cb_dl filename tx total_arg s =
     (if Some filename \<noteq> last_dl_filename s \<or> last_dl_total_size s \<noteq> total_arg
      then
        (let s1 = s\<lparr>last_dl_filename := Some filename,
                    last_dl_total_size := total_arg,
                    last_dl_progress := 0\<rparr>;
             (text, s2) =
               (if total_download_size s1 = 0
                then (''Updating '' @ strip_ext ''.db'' filename @ '' database'', s1)
                else (''Downloading '' @ strip_ext ''.pkg.tar.xz'' filename @ ''...'',
                      s1\<lparr>downloaded_packages := downloaded_packages s1 + 1\<rparr>))
         in case queue_event cb_dl_code ''info'' (Text text) s2 of
              (Returns u, s3) \<Rightarrow> queue_event cb_dl_code ''percent'' (Number 0) s3
            | (Raises e, s3) \<Rightarrow> (Raises e, s3)
            | (Blocks, s3) \<Rightarrow> (Blocks, s3))
      else
        (case dl_progress s tx of
           Raises e \<Rightarrow> (Raises e, s)
         | Blocks \<Rightarrow> (Blocks, s)
         | Returns progress \<Rightarrow>
             (if progress > last_dl_progress s
              then queue_event cb_dl_code ''percent'' (Number progress)
                     (s\<lparr>last_dl_progress := progress\<rparr>)
              else (Returns (), s))))"

subsection \<open>Reading the call trace\<close>

text \<open>The databases whose \<^verbatim>\<open>update\<close> was called, in order.\<close>

fun updated :: "call list \<Rightarrow> string list" where
  "updated [] = []"
| "updated (CUpdate n f # cs) = n # updated cs"
| "updated (c # cs) = updated cs"

subsection \<open>Concrete objects for the examples\<close>

text \<open>The attribute values that \<^verbatim>\<open>__init__\<close> sets, for a given queue and handle.\<close>

definition new_pac :: "cqueue option \<Rightarrow> alpm_handle option \<Rightarrow> pac" where
  "new_pac q h =
     \<lparr> callback_queue = q, handle = h,
       last_dl_filename = None, last_dl_progress = 0, last_dl_total_size = 0,
       total_packages_to_download = 0, downloaded_packages = 0,
       total_download_size = 0, last_event = Map.empty,
       logged = [], engine_calls = [] \<rparr>"

text \<open>The flags of an empty options dictionary.\<close>

definition no_flags :: trans_flags where
  "no_flags =
     \<lparr> cascade = PyBool False, nodeps = PyBool False, force = PyBool False,
       dbonly = PyBool False, downloadonly = PyBool False, needed = PyBool False,
       nosave = PyBool False, recurse = False, recurseall = False,
       unneeded = PyBool False, alldeps = False, allexplicit = False \<rparr>"

text \<open>A transaction of which every method returns.\<close>

definition tx_ok :: transaction where
  "tx_ok = \<lparr> t_flags = no_flags, t_add_pkg = (\<lambda>p. None),
            t_prepare = None, t_commit = None, t_release = None \<rparr>"

definition ex_options :: "string \<rightharpoonup> pyval" where
  "ex_options = [''recursive'' \<mapsto> PyInt 2, ''mode'' \<mapsto> PyInt 1]"

definition ex_pkg :: "string \<Rightarrow> string \<Rightarrow> pkg" where
  "ex_pkg db n = \<lparr> pkg_name = n, pkg_db = db \<rparr>"

definition core_db :: syncdb where
  "core_db = \<lparr> db_name = ''core'',
               db_pkgs = [ex_pkg ''core'' ''A'', ex_pkg ''core'' ''B''],
               db_grps = [(''base'', [ex_pkg ''core'' ''B''])],
               db_update = Returns True \<rparr>"

definition extra_db :: syncdb where
  "extra_db = \<lparr> db_name = ''extra'',
                db_pkgs = [ex_pkg ''extra'' ''C''],
                db_grps = [],
                db_update = Returns True \<rparr>"

definition ex_handle :: "syncdb list \<Rightarrow> alpm_handle" where
  "ex_handle dbs = \<lparr> syncdbs = dbs, h_init_transaction = (\<lambda>fl. Returns tx_ok) \<rparr>"

text \<open>An unbounded, empty queue whose consumer drains it; the state of a \<^verbatim>\<open>Pac\<close> object
  right after the first \<^verbatim>\<open>cb_dl\<close> call for \<open>core.db\<close> of 100 bytes; and the code object
  of some caller of \<^verbatim>\<open>queue_event\<close>.\<close>

definition ex_queue :: cqueue where
  "ex_queue = \<lparr> maxsize = 0, items = [], consumed = [], consumer_drains = True \<rparr>"

definition dl_state :: pac where
  "dl_state = (new_pac (Some (ex_queue\<lparr>items := [(''info'', Text ''Updating core database''),
                                                   (''percent'', Number 0)]\<rparr>)) None)
       \<lparr> last_dl_filename := Some ''core.db'', last_dl_total_size := 100,
         last_event := [''info'' \<mapsto> Text ''Updating core database'', ''percent'' \<mapsto> Number 0] \<rparr>"

definition ex_caller :: code_obj where
  "ex_caller = \<lparr>co_name = ''run'', co_filename = ''installation_process.py'', co_firstlineno = 120\<rparr>"

section \<open>Properties\<close>

subsection \<open>Transaction flags\<close>

lemma py_gt_int_1_0: "py_gt_int v 1 = Some True \<Longrightarrow> py_gt_int v 0 = Some True"
  by (cases v) (auto split: if_splits)

lemma py_eq_int_unique: "py_eq_int v a \<Longrightarrow> py_eq_int v b \<Longrightarrow> a = b"
  by (cases v) (auto split: if_splits)

lemma init_flags_fields:
  assumes "init_flags options = Some fl"
  shows "py_gt_int (dict_get options ''recursive'' (PyInt 0)) 0 = Some (recurse fl)"
    and "py_gt_int (dict_get options ''recursive'' (PyInt 0)) 1 = Some (recurseall fl)"
    and "alldeps fl = py_eq_int (dict_get options ''mode'' PyNone) PKG_REASON_DEPEND"
    and "allexplicit fl = py_eq_int (dict_get options ''mode'' PyNone) PKG_REASON_EXPLICIT"
  using assms by (auto simp: init_flags_def split: option.splits)

lemma init_flags_escalate_exclusive:
  assumes "init_flags options = Some fl"
  shows "(recurseall fl \<longrightarrow> recurse fl) \<and> \<not> (alldeps fl \<and> allexplicit fl)"
proof
  show "recurseall fl \<longrightarrow> recurse fl"
  proof
    assume "recurseall fl"
    with init_flags_fields(2)[OF assms]
    have "py_gt_int (dict_get options ''recursive'' (PyInt 0)) 1 = Some True" by simp
    from py_gt_int_1_0[OF this] init_flags_fields(1)[OF assms]
    show "recurse fl" by simp
  qed
next
  show "\<not> (alldeps fl \<and> allexplicit fl)"
  proof
    assume "alldeps fl \<and> allexplicit fl"
    with init_flags_fields(3,4)[OF assms]
    have "PKG_REASON_DEPEND = PKG_REASON_EXPLICIT"
      by (auto dest: py_eq_int_unique)
    then show False by (simp add: PKG_REASON_DEPEND_def PKG_REASON_EXPLICIT_def)
  qed
qed

lemma init_transaction_flags:
  "fst (init_transaction options s) = Returns (Some t) \<Longrightarrow> init_flags options = Some (t_flags t)"
  by (auto simp add: init_transaction_def Let_def split: option.splits result.splits exc.splits)

text \<open>
  Claim C9. Whatever the options dictionary holds, a transaction that \<^verbatim>\<open>init_transaction\<close>
  creates has \<open>recurse\<close> set whenever it has \<open>recurseall\<close> set, and never has both
  \<open>alldeps\<close> and \<open>allexplicit\<close> set: the first two compare the one entry
  \<^verbatim>\<open>'recursive'\<close> with 0 and with 1, the last two compare the one entry \<^verbatim>\<open>'mode'\<close> with
  two different constants.
\<close>

theorem init_transaction_recurse_mode:
  "fst (init_transaction options s) = Returns (Some t) \<Longrightarrow>
     (recurseall (t_flags t) \<longrightarrow> recurse (t_flags t)) \<and>
     \<not> (alldeps (t_flags t) \<and> allexplicit (t_flags t))"
  using init_flags_escalate_exclusive[OF init_transaction_flags] by blast

theorem init_transaction_recurse_mode_witness:
  "fst (init_transaction ex_options (new_pac None (Some (ex_handle [core_db]))))
     = Returns (Some (tx_ok\<lparr>t_flags := no_flags\<lparr>recurse := True, recurseall := True, alldeps := True\<rparr>\<rparr>))
   \<and> recurseall (no_flags\<lparr>recurse := True, recurseall := True, alldeps := True\<rparr>)
   \<and> recurse (no_flags\<lparr>recurse := True, recurseall := True, alldeps := True\<rparr>)
   \<and> \<not> allexplicit (no_flags\<lparr>recurse := True, recurseall := True, alldeps := True\<rparr>)"
proof -
  let ?t = "tx_ok\<lparr>t_flags := no_flags\<lparr>recurse := True, recurseall := True, alldeps := True\<rparr>\<rparr>"
  have run: "fst (init_transaction ex_options (new_pac None (Some (ex_handle [core_db]))))
               = Returns (Some ?t)"
    by (simp add: init_transaction_def init_flags_def ex_options_def dict_get_def new_pac_def
          ex_handle_def no_flags_def tx_ok_def PKG_REASON_DEPEND_def PKG_REASON_EXPLICIT_def
          Let_def)
  from init_transaction_recurse_mode[OF run] run show ?thesis
    by (simp add: no_flags_def)
qed

subsection \<open>Finalizing a transaction\<close>

lemma finalize_transaction_calls:
  "engine_calls (snd (finalize_transaction t s)) =
     engine_calls s @ [CPrepare] @ (if t_prepare t = None then [CCommit] else []) @ [CRelease]"
  by (simp add: finalize_transaction_def prepare_commit_def finalize_handler_def
        engine_call_def logging_def Let_def split: option.splits exc.splits prod.splits)

lemma finalize_transaction_release_raises:
  "t_release t = Some e \<Longrightarrow> fst (finalize_transaction t s) = Raises e"
  by (auto simp add: finalize_transaction_def split: option.splits prod.splits)

lemma finalize_transaction_alpm_error:
  assumes "t_prepare t = Some (AlpmError m) \<or> (t_prepare t = None \<and> t_commit t = Some (AlpmError m))"
  shows "logged (snd (finalize_transaction t s)) =
           logged s @ [(ERROR, ''Can't finalize alpm transaction: '' @ m)]"
    and "t_release t = None \<Longrightarrow> fst (finalize_transaction t s) = Returns False"
  using assms
  by (auto simp add: finalize_transaction_def prepare_commit_def finalize_handler_def
        engine_call_def logging_def Let_def split: option.splits exc.splits prod.splits)

lemma finalize_transaction_success:
  assumes "t_prepare t = None" "t_commit t = None" "t_release t = None"
  shows "fst (finalize_transaction t s) = Returns True"
    and "logged (snd (finalize_transaction t s)) = logged s"
  using assms
  by (auto simp add: finalize_transaction_def prepare_commit_def finalize_handler_def
        engine_call_def logging_def Let_def split: option.splits exc.splits prod.splits)

lemma finalize_transaction_other:
  assumes "\<not> is_alpm_error e"
      and "t_prepare t = Some e \<or> (t_prepare t = None \<and> t_commit t = Some e)"
      and "t_release t = None"
  shows "fst (finalize_transaction t s) = Returns True"
    and "logged (snd (finalize_transaction t s)) = logged s"
  using assms
  by (cases e; auto simp add: finalize_transaction_def prepare_commit_def finalize_handler_def
        engine_call_def logging_def Let_def split: option.splits exc.splits prod.splits)+

lemma finalize_transaction_returns:
  "t_release t = None \<Longrightarrow> \<exists>b. fst (finalize_transaction t s) = Returns b"
  by (auto simp add: finalize_transaction_def split: option.splits prod.splits)

text \<open>
  Claim C2, as stated, fails: the claim lets \<^verbatim>\<open>finalize_transaction\<close> return \<^verbatim>\<open>False\<close>
  for every transaction of which a phase raises \<^verbatim>\<open>pyalpm.error\<close>. Nothing guards the
  \<^verbatim>\<open>transaction.release()\<close> of the \<^verbatim>\<open>finally\<close> block, so when \<^verbatim>\<open>commit\<close> fails and
  \<^verbatim>\<open>release\<close> fails too, the error of \<^verbatim>\<open>release\<close> reaches the caller.
\<close>

theorem finalize_transaction_release_failure_escapes:
  "t_commit (tx_ok\<lparr>t_commit := Some (AlpmError ''failed to commit transaction''),
                  t_release := Some (AlpmError ''unable to release transaction'')\<rparr>)
     = Some (AlpmError ''failed to commit transaction'')
   \<and> fst (finalize_transaction
            (tx_ok\<lparr>t_commit := Some (AlpmError ''failed to commit transaction''),
                   t_release := Some (AlpmError ''unable to release transaction'')\<rparr>)
            (new_pac None None))
       = Raises (AlpmError ''unable to release transaction'')
   \<and> fst (finalize_transaction
            (tx_ok\<lparr>t_commit := Some (AlpmError ''failed to commit transaction''),
                   t_release := Some (AlpmError ''unable to release transaction'')\<rparr>)
            (new_pac None None))
       \<noteq> Returns False"
  by (simp add: finalize_transaction_def prepare_commit_def finalize_handler_def
        engine_call_def logging_def tx_ok_def new_pac_def Let_def)

text \<open>
  Claim C2, amended. For every transaction, \<^verbatim>\<open>finalize_transaction\<close> calls \<^verbatim>\<open>prepare\<close>,
  then \<^verbatim>\<open>commit\<close> if \<^verbatim>\<open>prepare\<close> returned, then \<^verbatim>\<open>release\<close>, and nothing else: on every
  path \<^verbatim>\<open>release\<close> is called exactly once, last. If a phase raises \<^verbatim>\<open>pyalpm.error\<close>, the
  error is logged, and the method returns \<^verbatim>\<open>False\<close> provided \<^verbatim>\<open>release\<close> returns; if both
  phases and \<^verbatim>\<open>release\<close> return, it returns \<^verbatim>\<open>True\<close> and logs nothing. An exception that
  \<^verbatim>\<open>release\<close> itself raises reaches the caller.
\<close>

theorem finalize_transaction_engine_error:
  "engine_calls (snd (finalize_transaction t s)) =
     engine_calls s @ [CPrepare] @ (if t_prepare t = None then [CCommit] else []) @ [CRelease]
   \<and> (t_prepare t = Some (AlpmError m) \<or> (t_prepare t = None \<and> t_commit t = Some (AlpmError m))
        \<longrightarrow> logged (snd (finalize_transaction t s)) =
              logged s @ [(ERROR, ''Can't finalize alpm transaction: '' @ m)]
            \<and> (t_release t = None \<longrightarrow> fst (finalize_transaction t s) = Returns False))
   \<and> (t_prepare t = None \<and> t_commit t = None \<and> t_release t = None
        \<longrightarrow> fst (finalize_transaction t s) = Returns True
            \<and> logged (snd (finalize_transaction t s)) = logged s)
   \<and> (t_release t = Some e \<longrightarrow> fst (finalize_transaction t s) = Raises e)"
  using finalize_transaction_calls[of t s] finalize_transaction_alpm_error[of t m s]
    finalize_transaction_success[of t s] finalize_transaction_release_raises[of t e s]
  by blast

theorem finalize_transaction_engine_error_witness:
  "t_commit (tx_ok\<lparr>t_commit := Some (AlpmError ''failed to commit transaction'')\<rparr>)
     = Some (AlpmError ''failed to commit transaction'')
   \<and> engine_calls (snd (finalize_transaction
        (tx_ok\<lparr>t_commit := Some (AlpmError ''failed to commit transaction'')\<rparr>)
        (new_pac None None))) = [CPrepare, CCommit, CRelease]
   \<and> logged (snd (finalize_transaction
        (tx_ok\<lparr>t_commit := Some (AlpmError ''failed to commit transaction'')\<rparr>)
        (new_pac None None)))
       = [(ERROR, ''Can't finalize alpm transaction: failed to commit transaction'')]
   \<and> fst (finalize_transaction
        (tx_ok\<lparr>t_commit := Some (AlpmError ''failed to commit transaction'')\<rparr>)
        (new_pac None None)) = Returns False"
  using finalize_transaction_engine_error
    [of "tx_ok\<lparr>t_commit := Some (AlpmError ''failed to commit transaction'')\<rparr>"
        "new_pac None None" "''failed to commit transaction''" TypeError]
  by (simp add: tx_ok_def new_pac_def)

text \<open>
  Claim C10, as stated, fails: \<^verbatim>\<open>finalize_transaction\<close> does hand an exception to its
  caller when \<^verbatim>\<open>transaction.release()\<close> raises in the \<^verbatim>\<open>finally\<close> block, before the
  \<^verbatim>\<open>return\<close> is reached. Here \<^verbatim>\<open>prepare\<close> raises an exception that is not
  \<^verbatim>\<open>pyalpm.error\<close>, and the method neither returns \<^verbatim>\<open>True\<close> nor returns at all.
\<close>

theorem finalize_transaction_propagates_release_error:
  "fst (finalize_transaction
          (tx_ok\<lparr>t_prepare := Some (OtherError ''KeyboardInterrupt''),
                 t_release := Some (AlpmError ''unable to release transaction'')\<rparr>)
          (new_pac None None))
     = Raises (AlpmError ''unable to release transaction'')"
  by (simp add: finalize_transaction_def prepare_commit_def finalize_handler_def
        engine_call_def logging_def tx_ok_def new_pac_def Let_def)

text \<open>
  Claim C10, amended. \<^verbatim>\<open>finalize_transaction\<close> never hands an exception raised by
  \<^verbatim>\<open>prepare\<close> or \<^verbatim>\<open>commit\<close> to its caller: whenever \<^verbatim>\<open>release\<close> returns, the method
  returns a boolean. For an exception of \<^verbatim>\<open>prepare\<close> or \<^verbatim>\<open>commit\<close> that is not
  \<^verbatim>\<open>pyalpm.error\<close>, the transaction is still released (once, as the last call), nothing
  is logged, and the value returned is \<^verbatim>\<open>True\<close>. Only an exception raised by
  \<^verbatim>\<open>release\<close> itself reaches the caller.
\<close>

theorem finalize_transaction_swallows:
  "(t_release t = None \<longrightarrow> (\<exists>b. fst (finalize_transaction t s) = Returns b))
   \<and> (\<not> is_alpm_error e \<and> t_release t = None
        \<and> (t_prepare t = Some e \<or> (t_prepare t = None \<and> t_commit t = Some e))
        \<longrightarrow> fst (finalize_transaction t s) = Returns True
            \<and> logged (snd (finalize_transaction t s)) = logged s
            \<and> engine_calls (snd (finalize_transaction t s)) =
                engine_calls s @ [CPrepare] @ (if t_prepare t = None then [CCommit] else [])
                  @ [CRelease])
   \<and> (t_release t = Some e' \<longrightarrow> fst (finalize_transaction t s) = Raises e')"
  using finalize_transaction_returns[of t s] finalize_transaction_other[of e t s]
    finalize_transaction_calls[of t s] finalize_transaction_release_raises[of t e' s]
  by blast

theorem finalize_transaction_swallows_witness:
  "\<not> is_alpm_error (SystemExit 1)
   \<and> t_commit (tx_ok\<lparr>t_commit := Some (SystemExit 1)\<rparr>) = Some (SystemExit 1)
   \<and> fst (finalize_transaction (tx_ok\<lparr>t_commit := Some (SystemExit 1)\<rparr>) (new_pac None None))
       = Returns True
   \<and> logged (snd (finalize_transaction (tx_ok\<lparr>t_commit := Some (SystemExit 1)\<rparr>)
                     (new_pac None None))) = []
   \<and> engine_calls (snd (finalize_transaction (tx_ok\<lparr>t_commit := Some (SystemExit 1)\<rparr>)
                           (new_pac None None))) = [CPrepare, CCommit, CRelease]"
  using finalize_transaction_swallows
    [of "tx_ok\<lparr>t_commit := Some (SystemExit 1)\<rparr>" "new_pac None None" "SystemExit 1" TypeError]
  by (simp add: tx_ok_def new_pac_def)

subsection \<open>Refreshing the databases\<close>

lemma init_flags_empty: "init_flags Map.empty = Some no_flags"
  by (simp add: init_flags_def dict_get_def no_flags_def PKG_REASON_DEPEND_def PKG_REASON_EXPLICIT_def)

lemma init_transaction_empty:
  "handle s = Some h \<Longrightarrow> h_init_transaction h no_flags = Returns t \<Longrightarrow>
   init_transaction Map.empty s = (Returns (Some (t\<lparr>t_flags := no_flags\<rparr>)), engine_call (CInit no_flags) s)"
  by (simp add: init_transaction_def init_flags_empty Let_def)

lemma updated_append: "updated (xs @ ys) = updated xs @ updated ys"
  by (induction xs rule: updated.induct) auto

lemma updated_rounds:
  "updated (concat (map (\<lambda>db. [CInit fl, CUpdate (db_name db) True, CRelease]) dbs)) = map db_name dbs"
  by (induction dbs) auto

lemma refresh_loop_prefix:
  assumes h: "h_init_transaction h no_flags = Returns t" "t_release t = None"
  shows "handle s = Some h \<Longrightarrow> \<forall>d \<in> set pre. \<exists>b. db_update d = Returns b \<Longrightarrow>
     refresh_loop (pre @ rest) s =
     refresh_loop rest (s\<lparr>engine_calls := engine_calls s @ concat (map (\<lambda>db. [CInit no_flags, CUpdate (db_name db) True, CRelease]) pre)\<rparr>)"
proof (induction pre arbitrary: s)
  case Nil
  then show ?case by simp
next
  case (Cons d pre)
  from Cons.prems obtain b where b: "db_update d = Returns b" by auto
  let ?s3 = "engine_call CRelease (engine_call (CUpdate (db_name d) True) (engine_call (CInit no_flags) s))"
  have step: "refresh_loop ((d # pre) @ rest) s = refresh_loop (pre @ rest) ?s3"
    using Cons.prems(1) h b by (simp add: init_transaction_empty Let_def)
  have hs: "handle ?s3 = Some h" using Cons.prems(1) by (simp add: engine_call_def)
  have "refresh_loop (pre @ rest) ?s3 = refresh_loop rest (?s3\<lparr>engine_calls := engine_calls ?s3 @ concat (map (\<lambda>db. [CInit no_flags, CUpdate (db_name db) True, CRelease]) pre)\<rparr>)"
    using Cons.IH[OF hs] Cons.prems(2) by simp
  with step show ?case by (simp add: engine_call_def)
qed

lemma refresh_loop_all_return:
  assumes "handle s = Some h" "h_init_transaction h no_flags = Returns t" "t_release t = None"
      and "\<forall>d \<in> set dbs. \<exists>b. db_update d = Returns b"
  shows "refresh_loop dbs s =
     (Returns True, s\<lparr>engine_calls := engine_calls s @ concat (map (\<lambda>db. [CInit no_flags, CUpdate (db_name db) True, CRelease]) dbs)\<rparr>)"
  using refresh_loop_prefix[OF assms(2,3,1,4), of "[]"] by simp

lemma refresh_loop_raise:
  assumes "handle s = Some h" "h_init_transaction h no_flags = Returns t" "t_release t = None"
      and "\<forall>d' \<in> set pre. \<exists>b. db_update d' = Returns b" and "db_update d = Raises e"
  shows "fst (refresh_loop (pre @ d # post) s) = Raises e"
    and "updated (engine_calls (snd (refresh_loop (pre @ d # post) s))) = updated (engine_calls s) @ map db_name (pre @ [d])"
proof -
  let ?s = "s\<lparr>engine_calls := engine_calls s @ concat (map (\<lambda>db. [CInit no_flags, CUpdate (db_name db) True, CRelease]) pre)\<rparr>"
  have hs: "handle ?s = Some h" using assms(1) by simp
  have eq: "refresh_loop (pre @ d # post) s = refresh_loop (d # post) ?s"
    by (rule refresh_loop_prefix[OF assms(2,3,1,4)])
  have last: "refresh_loop (d # post) ?s = (Raises e, engine_call (CUpdate (db_name d) True) (engine_call (CInit no_flags) ?s))"
    using assms(2,5) hs by (simp add: init_transaction_empty[OF hs assms(2)] Let_def)
  show "fst (refresh_loop (pre @ d # post) s) = Raises e"
    unfolding eq last by simp
  show "updated (engine_calls (snd (refresh_loop (pre @ d # post) s))) = updated (engine_calls s) @ map db_name (pre @ [d])"
    unfolding eq last by (simp add: engine_call_def updated_append updated_rounds)
qed

text \<open>
  Claim C3, amended. Take a handle on which \<^verbatim>\<open>init_transaction\<close> with no options
  creates a transaction, and whose transaction's \<^verbatim>\<open>release\<close> returns. Then
  \<^verbatim>\<open>do_refresh\<close> takes the sync databases in their configured order, each inside a
  transaction of its own. As long as every \<^verbatim>\<open>update\<close> returns (the value returned is not
  looked at), the loop goes through all of them, every transaction is released, and the
  result is \<^verbatim>\<open>True\<close>. The first \<^verbatim>\<open>update\<close> that raises ends the loop: its exception is
  the outcome of \<^verbatim>\<open>do_refresh\<close>, and the databases after it are not updated.
\<close>

theorem do_refresh_stops_at_exception:
  assumes "handle s = Some h" "h_init_transaction h no_flags = Returns t" "t_release t = None"
  shows "((\<forall>d \<in> set (syncdbs h). \<exists>b. db_update d = Returns b) \<longrightarrow>
            do_refresh s = (Returns True,
               s\<lparr>engine_calls := engine_calls s @
                    concat (map (\<lambda>db. [CInit no_flags, CUpdate (db_name db) True, CRelease]) (syncdbs h))\<rparr>))
       \<and> (syncdbs h = pre @ d # post \<and> (\<forall>d' \<in> set pre. \<exists>b. db_update d' = Returns b)
            \<and> db_update d = Raises e \<longrightarrow>
            fst (do_refresh s) = Raises e
            \<and> updated (engine_calls (snd (do_refresh s))) =
                updated (engine_calls s) @ map db_name (pre @ [d]))"
  using refresh_loop_all_return[OF assms, of "syncdbs h"] refresh_loop_raise[OF assms, of pre d e post]
    assms(1)
  by (simp add: do_refresh_def)

text \<open>
  Claim C3, as stated, fails: nothing in the loop of \<^verbatim>\<open>do_refresh\<close> catches an exception.
  With the databases \<open>core\<close> and \<open>extra\<close>, a failing update of \<open>core\<close> leaves
  \<^verbatim>\<open>do_refresh\<close> with that error; \<open>extra\<close> is never updated and the transaction opened for
  \<open>core\<close> is not released.
\<close>

theorem do_refresh_update_failure_aborts:
  "fst (do_refresh (new_pac None (Some (ex_handle
          [core_db\<lparr>db_update := Raises (AlpmError ''unable to update database'')\<rparr>, extra_db]))))
     = Raises (AlpmError ''unable to update database'')
   \<and> engine_calls (snd (do_refresh (new_pac None (Some (ex_handle
          [core_db\<lparr>db_update := Raises (AlpmError ''unable to update database'')\<rparr>, extra_db])))))
     = [CInit no_flags, CUpdate ''core'' True]"
  by (simp add: do_refresh_def new_pac_def ex_handle_def core_db_def extra_db_def
        init_transaction_def init_flags_empty engine_call_def Let_def)

theorem do_refresh_stops_at_exception_witness:
  "handle (new_pac None (Some (ex_handle [core_db, extra_db]))) = Some (ex_handle [core_db, extra_db])
   \<and> h_init_transaction (ex_handle [core_db, extra_db]) no_flags = Returns tx_ok
   \<and> t_release tx_ok = None
   \<and> fst (do_refresh (new_pac None (Some (ex_handle [core_db, extra_db])))) = Returns True
   \<and> engine_calls (snd (do_refresh (new_pac None (Some (ex_handle [core_db, extra_db])))))
       = [CInit no_flags, CUpdate ''core'' True, CRelease,
          CInit no_flags, CUpdate ''extra'' True, CRelease]"
proof -
  have a: "handle (new_pac None (Some (ex_handle [core_db, extra_db]))) = Some (ex_handle [core_db, extra_db])"
    by (simp add: new_pac_def)
  have b: "h_init_transaction (ex_handle [core_db, extra_db]) no_flags = Returns tx_ok"
    by (simp add: ex_handle_def)
  have c: "t_release tx_ok = None" by (simp add: tx_ok_def)
  have d: "\<forall>d \<in> set (syncdbs (ex_handle [core_db, extra_db])). \<exists>b. db_update d = Returns b"
    by (auto simp add: ex_handle_def core_db_def extra_db_def)
  from do_refresh_stops_at_exception[OF a b c, of "[]" core_db "[extra_db]" ValueError] d
  have "do_refresh (new_pac None (Some (ex_handle [core_db, extra_db]))) =
          (Returns True, (new_pac None (Some (ex_handle [core_db, extra_db])))
             \<lparr>engine_calls := engine_calls (new_pac None (Some (ex_handle [core_db, extra_db]))) @
                concat (map (\<lambda>db. [CInit no_flags, CUpdate (db_name db) True, CRelease])
                         (syncdbs (ex_handle [core_db, extra_db])))\<rparr>)"
    by blast
  then show ?thesis using a b c
    by (simp add: ex_handle_def core_db_def extra_db_def new_pac_def)
qed


subsection \<open>Installing\<close>

lemma find_sync_package_name:
  "find_sync_package n repos = Inr p \<Longrightarrow> pkg_name p = n"
  by (induction repos) (auto simp: get_pkg_def find_Some_iff split: option.splits)

lemma resolve_name_fst:
  "fst (resolve_name h c n (ts, s)) = ts @ fst (resolve_name h c n ([], s'))"
  by (simp add: resolve_name_def split: sum.splits option.splits)

lemma resolve_name_calls:
  "engine_calls (snd (resolve_name h c n acc)) = engine_calls (snd acc)"
  "handle (snd (resolve_name h c n acc)) = handle (snd acc)"
  by (cases acc; simp add: resolve_name_def logging_def split: sum.splits option.splits)+

lemma resolve_name_disjoint:
  "set (fst acc) \<inter> set c = {} \<Longrightarrow> set (fst (resolve_name h c n acc)) \<inter> set c = {}"
  by (cases acc) (auto simp add: resolve_name_def split: sum.splits option.splits)

lemma resolve_name_mono:
  "set (fst acc) \<subseteq> set (fst (resolve_name h c n acc))"
  by (cases acc) (auto simp add: resolve_name_def split: sum.splits option.splits)

lemma resolve_name_found:
  "find_sync_package n (repos_of (syncdbs h)) = Inr p \<Longrightarrow> n \<notin> set c \<Longrightarrow>
     n \<in> set (fst (resolve_name h c n acc))"
  by (cases acc) (auto simp add: resolve_name_def dest: find_sync_package_name)

lemma foldl_resolve_disjoint:
  "set (fst acc) \<inter> set c = {} \<Longrightarrow> set (fst (foldl (\<lambda>acc name. resolve_name h c name acc) acc pkgs)) \<inter> set c = {}"
  by (induction pkgs arbitrary: acc) (simp_all add: resolve_name_disjoint)

lemma foldl_resolve_mono:
  "set (fst acc) \<subseteq> set (fst (foldl (\<lambda>acc name. resolve_name h c name acc) acc pkgs))"
proof (induction pkgs arbitrary: acc)
  case Nil show ?case by simp
next
  case (Cons n pkgs)
  show ?case using resolve_name_mono[of acc h c n] Cons.IH[of "resolve_name h c n acc"] by simp
qed

lemma foldl_resolve_found:
  "n \<in> set pkgs \<Longrightarrow> find_sync_package n (repos_of (syncdbs h)) = Inr p \<Longrightarrow> n \<notin> set c \<Longrightarrow>
     n \<in> set (fst (foldl (\<lambda>acc name. resolve_name h c name acc) acc pkgs))"
proof (induction pkgs arbitrary: acc)
  case Nil then show ?case by simp
next
  case (Cons m pkgs)
  show ?case
  proof (cases "n = m")
    case True
    with Cons.prems have "n \<in> set (fst (resolve_name h c m acc))"
      by (simp add: resolve_name_found)
    with foldl_resolve_mono[of "resolve_name h c m acc" h c pkgs] show ?thesis by auto
  next
    case False
    with Cons.prems have "n \<in> set pkgs" by simp
    from Cons.IH[OF this Cons.prems(2,3)] show ?thesis by simp
  qed
qed

lemma foldl_resolve_calls:
  "engine_calls (snd (foldl (\<lambda>acc name. resolve_name h c name acc) acc pkgs)) = engine_calls (snd acc)"
  "handle (snd (foldl (\<lambda>acc name. resolve_name h c name acc) acc pkgs)) = handle (snd acc)"
  by (induction pkgs arbitrary: acc) (simp_all add: resolve_name_calls)

lemma foldl_resolve_fst:
  "fst (foldl (\<lambda>acc name. resolve_name h c name acc) (ts, s) pkgs) = fst (foldl (\<lambda>acc name. resolve_name h c name acc) (ts, s') pkgs)"
proof (induction pkgs arbitrary: ts s s')
  case Nil show ?case by simp
next
  case (Cons n pkgs)
  obtain t1 s1 where a: "resolve_name h c n (ts, s) = (t1, s1)" by (cases "resolve_name h c n (ts, s)")
  obtain t2 s2 where b: "resolve_name h c n (ts, s') = (t2, s2)" by (cases "resolve_name h c n (ts, s')")
  have "t1 = t2" using resolve_name_fst[of h c n ts s s'] resolve_name_fst[of h c n ts s' s'] a b
    by (metis fst_conv)
  then show ?case using a b Cons.IH[of t1 s1 s2] by simp
qed

lemma install_targets_state: "install_targets h c pkgs s = install_targets h c pkgs s'"
  by (simp add: install_targets_def resolve_names_def foldl_resolve_fst[of h c "[]" s _ s'])

lemma install_targets_distinct: "distinct (install_targets h c pkgs s)"
  by (simp add: install_targets_def list_set_def)

lemma install_targets_disjoint: "set (install_targets h c pkgs s) \<inter> set c = {}"
  by (simp add: install_targets_def list_set_def resolve_names_def foldl_resolve_disjoint)

lemma install_targets_found:
  "n \<in> set pkgs \<Longrightarrow> find_sync_package n (repos_of (syncdbs h)) = Inr p \<Longrightarrow> n \<notin> set c \<Longrightarrow>
     n \<in> set (install_targets h c pkgs s)"
  by (simp add: install_targets_def list_set_def resolve_names_def foldl_resolve_found)

lemma install_targets_AAB:
  assumes "find_sync_package ''A'' (repos_of (syncdbs h)) = Inr pa"
      and "find_sync_package ''B'' (repos_of (syncdbs h)) = Inr pb"
  shows "install_targets h [''B''] [''A'', ''A'', ''B''] s = [''A'']"
  using assms find_sync_package_name[OF assms(1)] find_sync_package_name[OF assms(2)]
  by (simp add: install_targets_def list_set_def resolve_names_def resolve_name_def)

lemma snd_case_result:
  "snd (case p of (Returns b, s7) \<Rightarrow> (Returns (f b), s7)
                | (Raises e, s7) \<Rightarrow> (Raises e, s7)
                | (Blocks, s7) \<Rightarrow> (Blocks, s7)) = snd p"
  by (auto split: prod.splits result.splits)

lemma do_install_AAB_run:
  assumes h: "handle s = Some h"
      and A: "find_sync_package ''A'' (repos_of (syncdbs h)) = Inr pa"
      and B: "find_sync_package ''B'' (repos_of (syncdbs h)) = Inr pb"
      and fl: "init_flags options = Some fl"
      and t: "h_init_transaction h fl = Returns t" "t_add_pkg t pa = None"
  shows "engine_calls (snd (do_install [''A'', ''A'', ''B''] [''B''] options s)) =
           engine_calls s @ [CInit fl, CAddPkg pa, CPrepare]
             @ (if t_prepare t = None then [CCommit] else []) @ [CRelease]"
proof -
  let ?s1 = "logging DEBUG ''Cnchi will install a list of packages like pacman -S'' s"
  let ?s2 = "snd (resolve_names h [''B''] (list_set [''A'', ''A'', ''B'']) ?s1)"
  have tg: "install_targets h [''B''] [''A'', ''A'', ''B''] ?s1 = [''A'']"
    by (rule install_targets_AAB[OF A B])
  have h2: "handle ?s2 = Some h" and c2: "engine_calls ?s2 = engine_calls s"
    using h by (simp_all add: resolve_names_def foldl_resolve_calls logging_def)
  have it: "init_transaction options ?s2 = (Returns (Some (t\<lparr>t_flags := fl\<rparr>)), engine_call (CInit fl) ?s2)"
    using h2 fl t by (simp add: init_transaction_def Let_def)
  show ?thesis
    using h tg it A t(2) c2
    by (simp add: do_install_def Let_def engine_call_def logging_def finalize_transaction_calls
          snd_case_result)
qed

text \<open>
  Claim C4. With \<open>A\<close> and \<open>B\<close> both found as sync packages, \<^verbatim>\<open>do_install\<close> called with
  the names \<open>A, A, B\<close> and the conflicts \<open>B\<close> has the target list \<open>[A]\<close>, and, once the
  transaction is created, the package of \<open>A\<close> is the only one added to it before it is
  finalized. For all names and conflicts: the target list has no duplicates, holds no
  name of the conflicts list, and holds every requested name that is found as a sync
  package and is not in the conflicts list.
\<close>

theorem do_install_target_set:
  "(find_sync_package ''A'' (repos_of (syncdbs h)) = Inr pa
      \<and> find_sync_package ''B'' (repos_of (syncdbs h)) = Inr pb \<longrightarrow>
        install_targets h [''B''] [''A'', ''A'', ''B''] s = [''A'']
        \<and> (handle s = Some h \<and> init_flags options = Some fl
             \<and> h_init_transaction h fl = Returns t \<and> t_add_pkg t pa = None \<longrightarrow>
             engine_calls (snd (do_install [''A'', ''A'', ''B''] [''B''] options s)) =
               engine_calls s @ [CInit fl, CAddPkg pa, CPrepare]
                 @ (if t_prepare t = None then [CCommit] else []) @ [CRelease]))
   \<and> distinct (install_targets h conflicts pkgs s)
   \<and> set (install_targets h conflicts pkgs s) \<inter> set conflicts = {}
   \<and> (n \<in> set pkgs \<and> find_sync_package n (repos_of (syncdbs h)) = Inr p \<and> n \<notin> set conflicts
        \<longrightarrow> n \<in> set (install_targets h conflicts pkgs s))"
  using install_targets_AAB[of h pa pb s] do_install_AAB_run[of s h pa pb options fl t]
    install_targets_distinct[of h conflicts pkgs s] install_targets_disjoint[of h conflicts pkgs s]
    install_targets_found[of n pkgs h p conflicts s]
  by blast

lemma repos_of_core: "repos_of [core_db] = [(''core'', core_db)]"
  by (simp add: repos_of_def core_db_def)

theorem do_install_target_set_witness:
  "find_sync_package ''A'' (repos_of (syncdbs (ex_handle [core_db]))) = Inr (ex_pkg ''core'' ''A'')
   \<and> find_sync_package ''B'' (repos_of (syncdbs (ex_handle [core_db]))) = Inr (ex_pkg ''core'' ''B'')
   \<and> install_targets (ex_handle [core_db]) [''B''] [''A'', ''A'', ''B'']
        (new_pac None (Some (ex_handle [core_db]))) = [''A'']
   \<and> engine_calls (snd (do_install [''A'', ''A'', ''B''] [''B''] Map.empty
        (new_pac None (Some (ex_handle [core_db])))))
       = [CInit no_flags, CAddPkg (ex_pkg ''core'' ''A''), CPrepare, CCommit, CRelease]"
proof -
  have a: "find_sync_package ''A'' (repos_of (syncdbs (ex_handle [core_db]))) = Inr (ex_pkg ''core'' ''A'')"
    by (simp add: ex_handle_def repos_of_core) (simp add: core_db_def get_pkg_def ex_pkg_def)
  have b: "find_sync_package ''B'' (repos_of (syncdbs (ex_handle [core_db]))) = Inr (ex_pkg ''core'' ''B'')"
    by (simp add: ex_handle_def repos_of_core) (simp add: core_db_def get_pkg_def ex_pkg_def)
  have c: "handle (new_pac None (Some (ex_handle [core_db]))) = Some (ex_handle [core_db])"
    by (simp add: new_pac_def)
  have d: "h_init_transaction (ex_handle [core_db]) no_flags = Returns tx_ok"
    by (simp add: ex_handle_def)
  have e: "t_add_pkg tx_ok (ex_pkg ''core'' ''A'') = None" "t_prepare tx_ok = None"
    by (simp_all add: tx_ok_def)
  from do_install_target_set[of "ex_handle [core_db]" "ex_pkg ''core'' ''A''" "ex_pkg ''core'' ''B''"
      "new_pac None (Some (ex_handle [core_db]))" Map.empty no_flags tx_ok "[''B'']"
      "[''A'', ''A'', ''B'']" "''A''" "ex_pkg ''core'' ''A''"]
    a b c d e init_flags_empty
  show ?thesis by (simp add: new_pac_def)
qed

text \<open>
  Claim C5. With the handle in place, \<^verbatim>\<open>do_install\<close> of no names returns the empty list,
  having written one debug line and called nothing on the engine. \<^verbatim>\<open>do_install\<close> of
  some names of which no target is left returns \<^verbatim>\<open>False\<close>, logs \<open>No targets found\<close>,
  and calls nothing on the engine either: no transaction is created or committed.
\<close>

theorem do_install_empty_cases:
  "handle s = Some h \<Longrightarrow>
     do_install [] conflicts options s =
       (Returns (RetList []), logging DEBUG ''Cnchi will install a list of packages like pacman -S'' s)
     \<and> engine_calls (snd (do_install [] conflicts options s)) = engine_calls s
     \<and> (pkgs \<noteq> [] \<and> install_targets h conflicts pkgs s = [] \<longrightarrow>
          fst (do_install pkgs conflicts options s) = Returns (RetBool False)
          \<and> last (logged (snd (do_install pkgs conflicts options s))) = (ERROR, ''No targets found'')
          \<and> engine_calls (snd (do_install pkgs conflicts options s)) = engine_calls s)"
  using install_targets_state[of h conflicts pkgs s "logging DEBUG ''Cnchi will install a list of packages like pacman -S'' s"]
  by (simp add: do_install_def Let_def resolve_names_def foldl_resolve_calls logging_def)

theorem do_install_empty_cases_witness:
  "handle (new_pac None (Some (ex_handle [core_db]))) = Some (ex_handle [core_db])
   \<and> do_install [] [] Map.empty (new_pac None (Some (ex_handle [core_db]))) =
       (Returns (RetList []),
        (new_pac None (Some (ex_handle [core_db])))
          \<lparr>logged := [(DEBUG, ''Cnchi will install a list of packages like pacman -S'')]\<rparr>)
   \<and> install_targets (ex_handle [core_db]) [] [''nonexistent-zzz'']
        (new_pac None (Some (ex_handle [core_db]))) = []
   \<and> fst (do_install [''nonexistent-zzz''] [] Map.empty (new_pac None (Some (ex_handle [core_db]))))
       = Returns (RetBool False)
   \<and> engine_calls (snd (do_install [''nonexistent-zzz''] [] Map.empty
        (new_pac None (Some (ex_handle [core_db]))))) = []"
proof -
  have c: "handle (new_pac None (Some (ex_handle [core_db]))) = Some (ex_handle [core_db])"
    by (simp add: new_pac_def)
  have t: "install_targets (ex_handle [core_db]) [] [''nonexistent-zzz'']
             (new_pac None (Some (ex_handle [core_db]))) = []"
    by (simp add: install_targets_def list_set_def resolve_names_def resolve_name_def
          ex_handle_def repos_of_core)
       (simp add: core_db_def get_pkg_def read_grp_def ex_pkg_def)
  from do_install_empty_cases[OF c, of "[]" Map.empty "[''nonexistent-zzz'']"] t c
  show ?thesis by (simp add: new_pac_def logging_def)
qed


subsection \<open>Queueing events\<close>

lemma queue_event_suppressed:
  "last_event s event_type = Some event_text \<Longrightarrow> queue_event func event_type event_text s = (Returns (), s)"
  by (simp add: queue_event_def)

lemma queue_event_cache:
  "last_event (snd (queue_event func event_type event_text s)) = (last_event s)(event_type \<mapsto> event_text)"
  by (auto simp add: queue_event_def Let_def put_nowait_or_drop_def join_def split: option.splits)

lemma queue_event_delivers:
  assumes "last_event s event_type \<noteq> Some event_text" "event_type \<noteq> ''error''"
  shows "queue_event func event_type event_text s =
           (Returns (), s\<lparr>last_event := (last_event s)(event_type \<mapsto> event_text),
                          callback_queue := map_option (\<lambda>q. put_nowait_or_drop q (event_type, event_text)) (callback_queue s)\<rparr>)"
  using assms by (cases "last_event s event_type") (auto simp add: queue_event_def Let_def split: option.splits)

lemma queue_event_twice:
  "queue_event func' event_type event_text (snd (queue_event func event_type event_text s)) =
     (Returns (), snd (queue_event func event_type event_text s))"
  by (rule queue_event_suppressed) (simp add: queue_event_cache)

lemma queue_event_other_fields:
  "last_dl_progress (snd (queue_event func event_type event_text s)) = last_dl_progress s"
  "last_dl_filename (snd (queue_event func event_type event_text s)) = last_dl_filename s"
  "last_dl_total_size (snd (queue_event func event_type event_text s)) = last_dl_total_size s"
  by (auto simp add: queue_event_def Let_def split: option.splits)

lemma queue_event_error_no_queue:
  assumes "last_event s ''error'' \<noteq> Some event_text" "callback_queue s = None"
  shows "queue_event func ''error'' event_text s =
           (Raises (SystemExit 1), s\<lparr>last_event := (last_event s)(''error'' \<mapsto> event_text)\<rparr>)"
  using assms by (cases "last_event s ''error''") (auto simp add: queue_event_def Let_def)

lemma queue_event_error_drained:
  assumes "last_event s ''error'' \<noteq> Some event_text" "callback_queue s = Some q" "consumer_drains q"
  shows "queue_event func ''error'' event_text s =
           (Raises (SystemExit 1),
            s\<lparr>last_event := (last_event s)(''error'' \<mapsto> event_text),
              callback_queue := Some (q\<lparr>items := [],
                 consumed := consumed q @ items q @
                   (if full q then [] else [(''error'', Located event_text func)])\<rparr>)\<rparr>)"
  using assms by (cases "last_event s ''error''") (auto simp add: queue_event_def Let_def put_nowait_or_drop_def join_def)

lemma queue_event_error_blocks:
  assumes "last_event s ''error'' \<noteq> Some event_text" "callback_queue s = Some q" "\<not> consumer_drains q"
  shows "fst (queue_event func ''error'' event_text s) = Blocks"
  using assms by (cases "last_event s ''error''") (auto simp add: queue_event_def Let_def put_nowait_or_drop_def join_def)

text \<open>
  Claim C8. \<^verbatim>\<open>queue_event\<close> suppresses an event exactly when the cache \<^verbatim>\<open>last_event\<close>
  holds the event's kind with an identical text: then the call returns and changes nothing.
  Otherwise the text becomes the cached one of its kind and, for a kind other than
  \<open>error\<close>, the event is handed to the queue (if there is one; \<^verbatim>\<open>put_nowait\<close> drops it
  when the queue is full). So the second of two consecutive events of one kind and text is
  always suppressed, and of two consecutive identical \<open>info\<close> events that are new to the
  cache, a queue with room receives exactly one.
\<close>

theorem queue_event_dedup:
  "(last_event s event_type = Some event_text \<longrightarrow>
      queue_event func event_type event_text s = (Returns (), s))
   \<and> (last_event s event_type \<noteq> Some event_text \<longrightarrow>
        last_event (snd (queue_event func event_type event_text s)) event_type = Some event_text
        \<and> (event_type \<noteq> ''error'' \<longrightarrow>
             queue_event func event_type event_text s =
               (Returns (),
                s\<lparr>last_event := (last_event s)(event_type \<mapsto> event_text),
                  callback_queue :=
                    map_option (\<lambda>q. put_nowait_or_drop q (event_type, event_text))
                      (callback_queue s)\<rparr>)))
   \<and> queue_event func' event_type event_text (snd (queue_event func event_type event_text s))
       = (Returns (), snd (queue_event func event_type event_text s))
   \<and> (last_event s ''info'' \<noteq> Some event_text \<and> callback_queue s = Some q \<and> \<not> full q \<longrightarrow>
        callback_queue (snd (queue_event func' ''info'' event_text
                               (snd (queue_event func ''info'' event_text s))))
          = Some (q\<lparr>items := items q @ [(''info'', event_text)]\<rparr>))"
proof -
  have tw: "\<And>t. queue_event func' t event_text (snd (queue_event func t event_text s))
       = (Returns (), snd (queue_event func t event_text s))"
    by (rule queue_event_twice)
  have info: "last_event s ''info'' \<noteq> Some event_text \<and> callback_queue s = Some q \<and> \<not> full q \<longrightarrow>
        callback_queue (snd (queue_event func' ''info'' event_text
                               (snd (queue_event func ''info'' event_text s))))
          = Some (q\<lparr>items := items q @ [(''info'', event_text)]\<rparr>)"
  proof
    assume a: "last_event s ''info'' \<noteq> Some event_text \<and> callback_queue s = Some q \<and> \<not> full q"
    then have "queue_event func ''info'' event_text s =
               (Returns (),
                s\<lparr>last_event := (last_event s)(''info'' \<mapsto> event_text),
                  callback_queue :=
                    map_option (\<lambda>q. put_nowait_or_drop q (''info'', event_text))
                      (callback_queue s)\<rparr>)"
      by (intro queue_event_delivers) simp_all
    with a have "callback_queue (snd (queue_event func ''info'' event_text s))
          = Some (q\<lparr>items := items q @ [(''info'', event_text)]\<rparr>)"
      by (simp add: put_nowait_or_drop_def)
    then show "callback_queue (snd (queue_event func' ''info'' event_text
                               (snd (queue_event func ''info'' event_text s))))
          = Some (q\<lparr>items := items q @ [(''info'', event_text)]\<rparr>)"
      by (simp only: tw snd_conv)
  qed
  show ?thesis
    using queue_event_suppressed[of s event_type event_text func]
      queue_event_cache[of func event_type event_text s]
      queue_event_delivers[of s event_type event_text func] tw[of event_type] info
    by simp
qed

theorem queue_event_dedup_witness:
  "last_event (new_pac (Some ex_queue) None) ''info'' \<noteq> Some (Text ''Checking dependencies...'')
   \<and> callback_queue (new_pac (Some ex_queue) None) = Some ex_queue \<and> \<not> full ex_queue
   \<and> callback_queue (snd (queue_event cb_dl_code ''info'' (Text ''Checking dependencies...'')
        (snd (queue_event cb_dl_code ''info'' (Text ''Checking dependencies...'')
               (new_pac (Some ex_queue) None)))))
       = Some (ex_queue\<lparr>items := [(''info'', Text ''Checking dependencies...'')]\<rparr>)"
proof -
  have a: "last_event (new_pac (Some ex_queue) None) ''info'' \<noteq> Some (Text ''Checking dependencies...'')"
    "callback_queue (new_pac (Some ex_queue) None) = Some ex_queue" "\<not> full ex_queue"
    by (simp_all add: new_pac_def full_def ex_queue_def)
  have "callback_queue (snd (queue_event cb_dl_code ''info'' (Text ''Checking dependencies...'')
        (snd (queue_event cb_dl_code ''info'' (Text ''Checking dependencies...'')
               (new_pac (Some ex_queue) None)))))
       = Some (ex_queue\<lparr>items := items ex_queue @ [(''info'', Text ''Checking dependencies...'')]\<rparr>)"
    using queue_event_dedup[of "new_pac (Some ex_queue) None" "''info''"
        "Text ''Checking dependencies...''" cb_dl_code cb_dl_code ex_queue] a
    by blast
  with a show ?thesis by (simp add: ex_queue_def)
qed

text \<open>
  Claim C7, amended. An \<open>error\<close> event whose text the cache already holds for \<open>error\<close>
  is suppressed like any other, and nothing ends. Any other \<open>error\<close> event ends the
  producer with \<^verbatim>\<open>sys.exit(1)\<close>: at once when no queue is attached; otherwise after the
  event, with its text extended by the caller's name, file and line, was put on the queue
  (dropped if the queue is full) and \<^verbatim>\<open>join\<close> has returned, by which time the consumer has
  taken every item queued before, in order, and then the error event. With a consumer that
  does not drain the queue, \<^verbatim>\<open>join\<close> and so the call never return.
\<close>

theorem queue_event_error_protocol:
  "(last_event s ''error'' = Some event_text \<longrightarrow>
      queue_event func ''error'' event_text s = (Returns (), s))
   \<and> (last_event s ''error'' \<noteq> Some event_text \<longrightarrow>
        (callback_queue s = None \<longrightarrow>
           queue_event func ''error'' event_text s =
             (Raises (SystemExit 1), s\<lparr>last_event := (last_event s)(''error'' \<mapsto> event_text)\<rparr>))
        \<and> (callback_queue s = Some q \<and> consumer_drains q \<longrightarrow>
             queue_event func ''error'' event_text s =
               (Raises (SystemExit 1),
                s\<lparr>last_event := (last_event s)(''error'' \<mapsto> event_text),
                  callback_queue := Some (q\<lparr>items := [],
                     consumed := consumed q @ items q @
                       (if full q then [] else [(''error'', Located event_text func)])\<rparr>)\<rparr>))
        \<and> (callback_queue s = Some q \<and> \<not> consumer_drains q \<longrightarrow>
             fst (queue_event func ''error'' event_text s) = Blocks))"
  using queue_event_suppressed[of s "''error''" event_text func]
    queue_event_error_no_queue[of s event_text func]
    queue_event_error_drained[of s event_text q func]
    queue_event_error_blocks[of s event_text q func]
  by blast

theorem queue_event_error_protocol_witness:
  "last_event (new_pac (Some (ex_queue\<lparr>items := [(''info'', Text ''Downloading a file'')]\<rparr>)) None)
      ''error'' \<noteq> Some (Text ''Can't create partition'')
   \<and> consumer_drains (ex_queue\<lparr>items := [(''info'', Text ''Downloading a file'')]\<rparr>)
   \<and> fst (queue_event ex_caller ''error'' (Text ''Can't create partition'')
        (new_pac (Some (ex_queue\<lparr>items := [(''info'', Text ''Downloading a file'')]\<rparr>)) None))
       = Raises (SystemExit 1)
   \<and> callback_queue (snd (queue_event ex_caller ''error'' (Text ''Can't create partition'')
        (new_pac (Some (ex_queue\<lparr>items := [(''info'', Text ''Downloading a file'')]\<rparr>)) None)))
       = Some (ex_queue\<lparr>consumed := [(''info'', Text ''Downloading a file''),
                 (''error'', Located (Text ''Can't create partition'') ex_caller)]\<rparr>)"
proof -
  let ?q = "ex_queue\<lparr>items := [(''info'', Text ''Downloading a file'')]\<rparr>"
  have a: "last_event (new_pac (Some ?q) None) ''error'' \<noteq> Some (Text ''Can't create partition'')"
    "callback_queue (new_pac (Some ?q) None) = Some ?q" "consumer_drains ?q" "\<not> full ?q"
    by (simp_all add: new_pac_def full_def ex_queue_def)
  from queue_event_error_protocol[of "new_pac (Some ?q) None" "Text ''Can't create partition''"
      ex_caller ?q] a
  show ?thesis by (simp add: ex_queue_def)
qed

text \<open>
  Claim C7, as stated, fails: the error event is not always enqueued. Without a queue (the
  default of the constructor) \<^verbatim>\<open>queue_event\<close> exits at once, with nothing put anywhere
  and nothing waited for; with a full queue the error event is dropped, and the consumer
  sees only the items queued before.
\<close>

theorem queue_event_error_without_delivery:
  "queue_event ex_caller ''error'' (Text ''Can't create partition'') (new_pac None None)
     = (Raises (SystemExit 1),
        (new_pac None None)\<lparr>last_event := [''error'' \<mapsto> Text ''Can't create partition'']\<rparr>)
   \<and> callback_queue (snd (queue_event ex_caller ''error'' (Text ''Can't create partition'')
        (new_pac None None))) = None
   \<and> queue_event ex_caller ''error'' (Text ''Can't create partition'')
        (new_pac (Some (ex_queue\<lparr>maxsize := 1, items := [(''info'', Text ''Downloading a file'')]\<rparr>)) None)
     = (Raises (SystemExit 1),
        (new_pac (Some (ex_queue\<lparr>maxsize := 1, consumed := [(''info'', Text ''Downloading a file'')]\<rparr>)) None)
          \<lparr>last_event := [''error'' \<mapsto> Text ''Can't create partition'']\<rparr>)"
  by (simp add: queue_event_def new_pac_def ex_queue_def Let_def put_nowait_or_drop_def
        full_def join_def)


subsection \<open>Download progress\<close>

lemma cb_dl_same:
  assumes "last_dl_filename s = Some filename" "last_dl_total_size s = total_arg"
      and "dl_progress s tx = Returns progress"
  shows "progress > last_dl_progress s \<Longrightarrow> cb_dl filename tx total_arg s =
            queue_event cb_dl_code ''percent'' (Number progress) (s\<lparr>last_dl_progress := progress\<rparr>)"
    and "progress \<le> last_dl_progress s \<Longrightarrow> cb_dl filename tx total_arg s = (Returns (), s)"
  using assms by (simp_all add: cb_dl_def)

lemma dl_progress_log:
  "last_dl_total_size s \<le> 0 \<Longrightarrow> - 1024 < tx \<Longrightarrow>
     dl_progress s tx = Returns ((ln (1 + real_of_int tx / 1024))\<^sup>2 / 200)"
  by (simp add: dl_progress_def)

lemma cb_dl_same_progress:
  assumes "last_dl_filename s = Some filename" "last_dl_total_size s = total_arg"
      and "dl_progress s tx = Returns progress"
  shows "last_dl_progress (snd (cb_dl filename tx total_arg s)) = max (last_dl_progress s) progress"
proof (cases "progress > last_dl_progress s")
  case True
  then show ?thesis
    by (simp add: cb_dl_same(1)[OF assms] queue_event_other_fields max_def)
next
  case False
  then show ?thesis
    by (simp add: cb_dl_same(2)[OF assms] max_def)
qed

lemma ln2_upper: "ln (2::real) < 7/10"
proof -
  have "(1 + 7/40 + (7/40)\<^sup>2 / 2) \<le> exp (7/40 :: real)"
    by (rule exp_lower_Taylor_quadratic) simp
  then have "(1 + 7/40 + (7/40)\<^sup>2 / 2) ^ 4 \<le> exp (7/40 :: real) ^ 4"
    by (intro power_mono) simp_all
  also have "exp (7/40 :: real) ^ 4 = exp (7/10)"
    using exp_of_nat_mult[of 4 "7/40 :: real"] by simp
  finally have "(1 + 7/40 + (7/40)\<^sup>2 / 2) ^ 4 \<le> exp (7/10 :: real)" .
  moreover have "(2::real) < (1 + 7/40 + (7/40)\<^sup>2 / 2) ^ 4"
    by (simp add: power2_eq_square power4_eq_xxxx)
  ultimately have "exp (ln 2) < exp (7/10 :: real)" by simp
  then show ?thesis by (simp only: exp_less_cancel_iff)
qed

lemma exp_double_le:
  fixes x b c :: real
  assumes "exp x \<le> b" "b * b \<le> c"
  shows "exp (2 * x) \<le> c"
proof -
  have "exp (2 * x) = exp x * exp x" by (simp add: exp_double power2_eq_square)
  also have "\<dots> \<le> b * b"
  proof -
    have "0 \<le> b" using assms(1) exp_ge_zero[of x] by linarith
    with assms(1) show ?thesis by (intro mult_mono) simp_all
  qed
  finally show ?thesis using assms(2) by simp
qed

lemma ln2_lower: "343/500 < ln (2::real)"
proof -
  have "exp (343/32000 :: real) \<le> 1 + 343/32000 + (343/32000)\<^sup>2"
    by (rule exp_bound) simp_all
  then have e0: "exp (343/32000 :: real) \<le> 1010834/1000000"
    by (simp add: power2_eq_square)
  have e1: "exp (343/16000 :: real) \<le> 1021786/1000000"
    using exp_double_le[OF e0, of "1021786/1000000"] by simp
  have e2: "exp (343/8000 :: real) \<le> 1044047/1000000"
    using exp_double_le[OF e1, of "1044047/1000000"] by simp
  have e3: "exp (343/4000 :: real) \<le> 1090035/1000000"
    using exp_double_le[OF e2, of "1090035/1000000"] by simp
  have e4: "exp (343/2000 :: real) \<le> 1188177/1000000"
    using exp_double_le[OF e3, of "1188177/1000000"] by simp
  have e5: "exp (343/1000 :: real) \<le> 1411765/1000000"
    using exp_double_le[OF e4, of "1411765/1000000"] by simp
  have e6: "exp (343/500 :: real) \<le> 1993081/1000000"
    using exp_double_le[OF e5, of "1993081/1000000"] by simp
  then have "exp (343/500 :: real) < exp (ln 2)" by simp
  then show ?thesis by (simp only: exp_less_cancel_iff)
qed

lemma ln2_sq: "235/100000 < (ln (2::real))\<^sup>2 / 200" "(ln (2::real))\<^sup>2 / 200 < 245/100000"
proof -
  have a: "(343/500)\<^sup>2 < (ln (2::real))\<^sup>2"
    using ln2_lower by (intro power_strict_mono) simp_all
  have b: "(ln (2::real))\<^sup>2 < (7/10)\<^sup>2"
    using ln2_upper by (intro power_strict_mono) simp_all
  show "235/100000 < (ln (2::real))\<^sup>2 / 200" using a by (simp add: power2_eq_square)
  show "(ln (2::real))\<^sup>2 / 200 < 245/100000" using b by (simp add: power2_eq_square)
qed


lemma cb_dl_new_file_example:
  "cb_dl ''core.db'' 0 100 (new_pac (Some ex_queue) None) = (Returns (), dl_state)"
  by (simp add: cb_dl_def new_pac_def ex_queue_def dl_state_def queue_event_def Let_def
        put_nowait_or_drop_def full_def strip_ext_def endswith_def cb_dl_code_def)



lemma ln_sample_small: "(ln (1 + 50 / 1024 :: real))\<^sup>2 / 200 < 1/2"
proof -
  have "ln (1 + 50 / 1024 :: real) \<le> 50/1024" by (rule ln_add_one_self_le_self) simp
  moreover have "0 \<le> ln (1 + 50 / 1024 :: real)" by (rule ln_ge_zero) simp
  ultimately have "(ln (1 + 50 / 1024 :: real))\<^sup>2 \<le> (50/1024)\<^sup>2" by (intro power_mono) simp_all
  then show ?thesis by (simp add: power2_eq_square)
qed

text \<open>
  Claim C6, as stated, fails: the logarithmic curve is not chosen by the aggregate download
  size (\<^verbatim>\<open>total_download_size\<close>) but by the total of the file in progress
  (\<^verbatim>\<open>last_dl_total_size\<close>). With the aggregate size 0, as it is while the databases are
  refreshed, and a file of 100 bytes, 50 bytes give the fraction 1/2.
\<close>

theorem cb_dl_fraction_ignores_aggregate_size:
  "total_download_size ((new_pac None None)\<lparr>last_dl_filename := Some ''core.db'', last_dl_total_size := 100\<rparr>) = 0
   \<and> dl_progress ((new_pac None None)\<lparr>last_dl_filename := Some ''core.db'', last_dl_total_size := 100\<rparr>) 50
       = Returns (1/2)
   \<and> last_dl_progress (snd (cb_dl ''core.db'' 50 100
        ((new_pac None None)\<lparr>last_dl_filename := Some ''core.db'', last_dl_total_size := 100\<rparr>))) = 1/2
   \<and> (1/2 :: real) \<noteq> (ln (1 + 50 / 1024))\<^sup>2 / 200"
  using ln_sample_small
  by (simp add: new_pac_def dl_progress_def cb_dl_def queue_event_def Let_def)

lemma dl_progress_ratio:
  "0 < last_dl_total_size s \<Longrightarrow>
     dl_progress s tx = Returns (real_of_int tx / real_of_int (last_dl_total_size s))"
  by (simp add: dl_progress_def)

text \<open>
  Claim C6, amended. When the total of the file in progress is zero (or negative), whatever
  the aggregate download size, the fraction of a same-file call is
  \<open>(ln (1 + tx / 1024))\<^sup>2 / 200\<close>, for every byte count \<open>tx\<close> (every \<open>tx > -1024\<close>), and
  \<^verbatim>\<open>cb_dl\<close> stores it if it exceeds the stored one. For 1024 bytes it is
  \<open>(ln 2)\<^sup>2 / 200\<close>, which lies between 0.00235 and 0.00245. When the total of the file
  in progress is positive, the fraction is \<open>tx / total\<close>, again whatever the aggregate
  download size (also when it is zero), and \<^verbatim>\<open>cb_dl\<close> stores it if it exceeds the stored
  one.
\<close>

theorem cb_dl_log_curve:
  "(last_dl_total_size s \<le> 0 \<and> - 1024 < tx \<longrightarrow>
      dl_progress s tx = Returns ((ln (1 + real_of_int tx / 1024))\<^sup>2 / 200)
      \<and> (last_dl_filename s = Some filename \<and> last_dl_total_size s = total_arg \<longrightarrow>
           last_dl_progress (snd (cb_dl filename tx total_arg s)) =
             max (last_dl_progress s) ((ln (1 + real_of_int tx / 1024))\<^sup>2 / 200)))
   \<and> (last_dl_total_size s \<le> 0 \<longrightarrow> dl_progress s 1024 = Returns ((ln 2)\<^sup>2 / 200))
   \<and> 235/100000 < (ln (2::real))\<^sup>2 / 200 \<and> (ln (2::real))\<^sup>2 / 200 < 245/100000
   \<and> (0 < last_dl_total_size s \<longrightarrow>
        dl_progress s tx = Returns (real_of_int tx / real_of_int (last_dl_total_size s))
        \<and> (last_dl_filename s = Some filename \<and> last_dl_total_size s = total_arg \<longrightarrow>
             last_dl_progress (snd (cb_dl filename tx total_arg s)) =
               max (last_dl_progress s) (real_of_int tx / real_of_int total_arg)))"
proof -
  have lg: "last_dl_total_size s \<le> 0 \<and> - 1024 < tx \<longrightarrow>
      dl_progress s tx = Returns ((ln (1 + real_of_int tx / 1024))\<^sup>2 / 200)
      \<and> (last_dl_filename s = Some filename \<and> last_dl_total_size s = total_arg \<longrightarrow>
           last_dl_progress (snd (cb_dl filename tx total_arg s)) =
             max (last_dl_progress s) ((ln (1 + real_of_int tx / 1024))\<^sup>2 / 200))"
  proof
    assume a: "last_dl_total_size s \<le> 0 \<and> - 1024 < tx"
    then have p: "dl_progress s tx = Returns ((ln (1 + real_of_int tx / 1024))\<^sup>2 / 200)"
      by (simp add: dl_progress_log)
    show "dl_progress s tx = Returns ((ln (1 + real_of_int tx / 1024))\<^sup>2 / 200)
      \<and> (last_dl_filename s = Some filename \<and> last_dl_total_size s = total_arg \<longrightarrow>
           last_dl_progress (snd (cb_dl filename tx total_arg s)) =
             max (last_dl_progress s) ((ln (1 + real_of_int tx / 1024))\<^sup>2 / 200))"
      using p cb_dl_same_progress[of s filename total_arg tx, OF _ _ p] by simp
  qed
  have q: "last_dl_total_size s \<le> 0 \<longrightarrow> dl_progress s 1024 = Returns ((ln 2)\<^sup>2 / 200)"
    using dl_progress_log[of s 1024] by simp
  have pos: "0 < last_dl_total_size s \<longrightarrow>
        dl_progress s tx = Returns (real_of_int tx / real_of_int (last_dl_total_size s))
        \<and> (last_dl_filename s = Some filename \<and> last_dl_total_size s = total_arg \<longrightarrow>
             last_dl_progress (snd (cb_dl filename tx total_arg s)) =
               max (last_dl_progress s) (real_of_int tx / real_of_int total_arg))"
  proof
    assume a: "0 < last_dl_total_size s"
    then have p: "dl_progress s tx = Returns (real_of_int tx / real_of_int (last_dl_total_size s))"
      by (rule dl_progress_ratio)
    show "dl_progress s tx = Returns (real_of_int tx / real_of_int (last_dl_total_size s))
        \<and> (last_dl_filename s = Some filename \<and> last_dl_total_size s = total_arg \<longrightarrow>
             last_dl_progress (snd (cb_dl filename tx total_arg s)) =
               max (last_dl_progress s) (real_of_int tx / real_of_int total_arg))"
      using p cb_dl_same_progress[of s filename total_arg tx, OF _ _ p] by auto
  qed
  from lg q pos ln2_sq show ?thesis by blast
qed

theorem cb_dl_log_curve_witness:
  "last_dl_total_size ((new_pac None None)\<lparr>last_dl_filename := Some ''core.db'', total_download_size := 4096\<rparr>) \<le> 0
   \<and> dl_progress ((new_pac None None)\<lparr>last_dl_filename := Some ''core.db'', total_download_size := 4096\<rparr>) 1024
       = Returns ((ln 2)\<^sup>2 / 200)
   \<and> dl_progress ((new_pac None None)\<lparr>last_dl_filename := Some ''core.db'', total_download_size := 4096\<rparr>) 3072
       = Returns ((ln 4)\<^sup>2 / 200)
   \<and> last_dl_progress (snd (cb_dl ''core.db'' 1024 0
        ((new_pac None None)\<lparr>last_dl_filename := Some ''core.db'', total_download_size := 4096\<rparr>)))
       = (ln 2)\<^sup>2 / 200
   \<and> 0 < last_dl_total_size ((new_pac None None)\<lparr>last_dl_filename := Some ''core.db'', last_dl_total_size := 100\<rparr>)
   \<and> total_download_size ((new_pac None None)\<lparr>last_dl_filename := Some ''core.db'', last_dl_total_size := 100\<rparr>) = 0
   \<and> dl_progress ((new_pac None None)\<lparr>last_dl_filename := Some ''core.db'', last_dl_total_size := 100\<rparr>) 25
       = Returns (1/4)
   \<and> last_dl_progress (snd (cb_dl ''core.db'' 25 100
        ((new_pac None None)\<lparr>last_dl_filename := Some ''core.db'', last_dl_total_size := 100\<rparr>)))
       = 1/4"
proof -
  let ?s = "(new_pac None None)\<lparr>last_dl_filename := Some ''core.db'', total_download_size := 4096\<rparr>"
  let ?u = "(new_pac None None)\<lparr>last_dl_filename := Some ''core.db'', last_dl_total_size := 100\<rparr>"
  have a: "last_dl_total_size ?s \<le> 0" "last_dl_filename ?s = Some ''core.db''"
    "last_dl_total_size ?s = 0" "last_dl_progress ?s = 0"
    by (simp_all add: new_pac_def)
  have b: "0 < last_dl_total_size ?u" "last_dl_filename ?u = Some ''core.db''"
    "last_dl_total_size ?u = 100" "last_dl_progress ?u = 0" "total_download_size ?u = 0"
    by (simp_all add: new_pac_def)
  have s1: "dl_progress ?s 1024 = Returns ((ln 2)\<^sup>2 / 200)
            \<and> last_dl_progress (snd (cb_dl ''core.db'' 1024 0 ?s)) = (ln 2)\<^sup>2 / 200"
    using cb_dl_log_curve[of ?s 1024 "''core.db''" 0] a by (simp add: max_def)
  have s2: "dl_progress ?s 3072 = Returns ((ln 4)\<^sup>2 / 200)"
    using cb_dl_log_curve[of ?s 3072 "''core.db''" 0] a by simp
  have s3: "dl_progress ?u 25 = Returns (1/4)
            \<and> last_dl_progress (snd (cb_dl ''core.db'' 25 100 ?u)) = 1/4"
    using cb_dl_log_curve[of ?u 25 "''core.db''" 100] b by (simp add: max_def)
  from a(1) b(1,5) s1 s2 s3 show ?thesis by blast
qed


end
